theory Spec2Isabelle
  imports Main
begin

section \<open>Python values and built-ins used by library.py\<close>

text \<open>
  The values that reach \<^verbatim>\<open>Book.__init__\<close>: \<^verbatim>\<open>add_book\<close> passes \<^verbatim>\<open>int\<close>
  objects, \<^verbatim>\<open>_load_books\<close> passes the fields of a \<^verbatim>\<open>csv.DictReader\<close> row, which are
  \<^verbatim>\<open>str\<close> objects, or \<^verbatim>\<open>None\<close> for a column the row does not have.
  Python integers are unbounded, so they are \<^typ>\<open>int\<close>; strings are byte strings here
  (ASCII), which is what the built-ins below are modelled on.
\<close>

datatype pyval = PyInt int | PyStr string | PyNone

text \<open>The exceptions that the program can meet: those of the built-ins, \<^verbatim>\<open>csv.Error\<close>
  of the reader, and \<^verbatim>\<open>OSError\<close> of \<^verbatim>\<open>open\<close>.\<close>

datatype error = ValueError | TypeError | EOFError | StopIteration | CsvError | OSError

definition is_digit :: "char \<Rightarrow> bool" where
  "is_digit c = (48 \<le> (of_char c :: nat) \<and> (of_char c :: nat) \<le> 57)"

definition digit_val :: "char \<Rightarrow> nat" where
  "digit_val c = (of_char c :: nat) - 48"

definition digit_char :: "nat \<Rightarrow> char" where
  "digit_char d = char_of (48 + d)"

text \<open>\<^verbatim>\<open>str.isspace\<close> on ASCII: tab, line feed, vertical tab, form feed, carriage return,
  the separators 0x1c to 0x1f, and the space.\<close>

definition py_isspace :: "char \<Rightarrow> bool" where
  "py_isspace c = (let n = (of_char c :: nat) in (9 \<le> n \<and> n \<le> 13) \<or> (28 \<le> n \<and> n \<le> 32))"

text \<open>\<^verbatim>\<open>str.strip()\<close>: removes leading and trailing whitespace.\<close>

definition py_strip :: "string \<Rightarrow> string" where
  "py_strip s = rev (dropWhile py_isspace (rev (dropWhile py_isspace s)))"

text \<open>\<^verbatim>\<open>str.lower()\<close> on ASCII.\<close>

definition lower_char :: "char \<Rightarrow> char" where
  "lower_char c = (let n = (of_char c :: nat) in if 65 \<le> n \<and> n \<le> 90 then char_of (n + 32) else c)"

definition py_lower :: "string \<Rightarrow> string" where
  "py_lower s = map lower_char s"

text \<open>\<^verbatim>\<open>q in s\<close> for two strings: \<^verbatim>\<open>q\<close> occurs in \<^verbatim>\<open>s\<close> as a contiguous substring.\<close>

fun py_in :: "string \<Rightarrow> string \<Rightarrow> bool" where
  "py_in q [] = (q = [])"
| "py_in q (c # cs) = (take (length q) (c # cs) = q \<or> py_in q cs)"

text \<open>
  The decimal text of an integer: digits, with a minus sign when negative.
  CPython (3.11, and the maintenance releases of the older versions) refuses to convert
  between \<^verbatim>\<open>int\<close> and \<^verbatim>\<open>str\<close> in base 10 when more than
  \<^verbatim>\<open>sys.get_int_max_str_digits()\<close> digits are involved, 4300 unless configured, and
  raises \<^verbatim>\<open>ValueError\<close>. The program does not configure it.
\<close>

fun str_nat :: "nat \<Rightarrow> string" where
  "str_nat n = (if n < 10 then [digit_char n] else str_nat (n div 10) @ [digit_char (n mod 10)])"

declare str_nat.simps [simp del]

definition str_int :: "int \<Rightarrow> string" where
  "str_int i = (if i < 0 then CHR ''-'' # str_nat (nat (- i)) else str_nat (nat i))"

definition int_max_str_digits :: nat where
  "int_max_str_digits = 4300"

definition decimal_digits :: "int \<Rightarrow> nat" where
  "decimal_digits i = length (str_nat (nat \<bar>i\<bar>))"

text \<open>\<^verbatim>\<open>str(v)\<close>: the decimal text of an integer within the digit limit, a string as it
  is, and the name of \<^verbatim>\<open>None\<close>.\<close>

definition py_str :: "pyval \<Rightarrow> error + string" where
  "py_str v =
     (case v of
        PyInt i \<Rightarrow> if int_max_str_digits < decimal_digits i then Inl ValueError
                   else Inr (str_int i)
      | PyStr s \<Rightarrow> Inr s
      | PyNone \<Rightarrow> Inr ''None'')"

text \<open>
  \<^verbatim>\<open>int(s)\<close> for a string, base 10. The whitespace skipped on both sides is that of
  the C locale (tab, line feed, vertical tab, form feed, carriage return and space; the
  separators 0x1c to 0x1f that \<^verbatim>\<open>str.strip\<close> removes are not skipped). Then one sign
  is allowed, then at least one digit, with single underscores allowed between digits.
  A text of more than 4300 digits is refused, leading zeros counted and underscores not.
  Anything else raises \<^verbatim>\<open>ValueError\<close> (\<open>None\<close> here).
\<close>

definition int_isspace :: "char \<Rightarrow> bool" where
  "int_isspace c = (let n = (of_char c :: nat) in (9 \<le> n \<and> n \<le> 13) \<or> n = 32)"

fun parse_digits :: "string \<Rightarrow> nat \<Rightarrow> nat option" where
  "parse_digits [] acc = Some acc"
| "parse_digits (c # cs) acc =
     (if is_digit c then parse_digits cs (acc * 10 + digit_val c)
      else if c = CHR ''_'' then
        (case cs of
           [] \<Rightarrow> None
         | d # ds \<Rightarrow> if is_digit d then parse_digits ds (acc * 10 + digit_val d) else None)
      else None)"

definition parse_unsigned :: "string \<Rightarrow> nat option" where
  "parse_unsigned s =
     (if int_max_str_digits < length (filter is_digit s) then None
      else (case s of [] \<Rightarrow> None
            | c # cs \<Rightarrow> if is_digit c then parse_digits cs (digit_val c) else None))"

definition int_of_str :: "string \<Rightarrow> int option" where
  "int_of_str s =
     (case rev (dropWhile int_isspace (rev (dropWhile int_isspace s))) of
        [] \<Rightarrow> None
      | c # cs \<Rightarrow>
          if c = CHR ''-'' then map_option (\<lambda>n. - int n) (parse_unsigned cs)
          else if c = CHR ''+'' then map_option int (parse_unsigned cs)
          else map_option int (parse_unsigned (c # cs)))"

text \<open>\<^verbatim>\<open>int(v)\<close>: an \<^verbatim>\<open>int\<close> is returned as it is, a string is parsed, and \<^verbatim>\<open>None\<close>
  raises \<^verbatim>\<open>TypeError\<close>.\<close>

definition py_int :: "pyval \<Rightarrow> error + int" where
  "py_int v =
     (case v of
        PyInt i \<Rightarrow> Inr i
      | PyStr s \<Rightarrow> (case int_of_str s of None \<Rightarrow> Inl ValueError | Some i \<Rightarrow> Inr i)
      | PyNone \<Rightarrow> Inl TypeError)"

section \<open>Book\<close>

record book =
  book_id :: string
  title :: string
  author :: string
  total_copies :: int
  available_copies :: int

text \<open>
  \<^verbatim>\<open>Book.__init__\<close>. \<^verbatim>\<open>str(book_id)\<close> runs before the \<^verbatim>\<open>try\<close>, so what
  it raises leaves the constructor. The two conversions run in order inside one
  \<^verbatim>\<open>try\<close>; only \<^verbatim>\<open>ValueError\<close> is caught, and the handler sets both counts to 0.
  A \<^verbatim>\<open>TypeError\<close> leaves the constructor.
\<close>

definition Book_init :: "pyval \<Rightarrow> string \<Rightarrow> string \<Rightarrow> pyval \<Rightarrow> pyval \<Rightarrow> error + book" where
  "Book_init bid t a tc ac =
     (case py_str bid of
        Inl e \<Rightarrow> Inl e
      | Inr s \<Rightarrow>
          (let zeroed = \<lparr>book_id = s, title = t, author = a,
                         total_copies = 0, available_copies = 0\<rparr>
           in case py_int tc of
                Inl e \<Rightarrow> if e = ValueError then Inr zeroed else Inl e
              | Inr n \<Rightarrow>
                  (case py_int ac of
                     Inl e \<Rightarrow> if e = ValueError then Inr zeroed else Inl e
                   | Inr m \<Rightarrow> Inr \<lparr>book_id = s, title = t, author = a,
                                  total_copies = n, available_copies = m\<rparr>)))"

text \<open>\<^verbatim>\<open>Book.check_out\<close> and \<^verbatim>\<open>Book.check_in\<close>: the record after the call and the
  returned flag.\<close>

definition check_out :: "book \<Rightarrow> book \<times> bool" where
  "check_out b =
     (if available_copies b > 0
      then (b\<lparr>available_copies := available_copies b - 1\<rparr>, True)
      else (b, False))"

definition check_in :: "book \<Rightarrow> book \<times> bool" where
  "check_in b =
     (if available_copies b < total_copies b
      then (b\<lparr>available_copies := available_copies b + 1\<rparr>, True)
      else (b, False))"


section \<open>Library\<close>

text \<open>
  \<^verbatim>\<open>issued_books\<close> maps a book id to the pair (issue date, due date). A naive
  \<^verbatim>\<open>datetime\<close> has microsecond resolution: a point in time is its number of
  microseconds on the calendar's time line, and a \<^verbatim>\<open>timedelta\<close> is a number of
  microseconds.
\<close>

record library =
  books :: "book list"
  issued_books :: "string \<rightharpoonup> (int \<times> int)"

definition us_per_day :: int where
  "us_per_day = 86400000000"

text \<open>\<^verbatim>\<open>timedelta(days=n)\<close>, and the \<^verbatim>\<open>.days\<close> attribute of a difference of two
  dates (a \<^verbatim>\<open>timedelta\<close> is normalised so that \<^verbatim>\<open>days\<close> is the floor).\<close>

definition timedelta_days :: "int \<Rightarrow> int" where
  "timedelta_days n = n * us_per_day"

definition days :: "int \<Rightarrow> int" where
  "days delta = delta div us_per_day"

subsection \<open>File handling\<close>

text \<open>
  The file \<^verbatim>\<open>library_data.txt\<close> is either absent or holds a sequence of rows, each a
  sequence of text fields: what \<^verbatim>\<open>csv.writer\<close> is given and what \<^verbatim>\<open>csv.reader\<close>
  parses. The quoting of the \<^verbatim>\<open>csv\<close> module is below this model. The flag
  \<open>io_ok\<close> of the two operations says whether \<^verbatim>\<open>open\<close> succeeds; when it does not,
  the handler of the surrounding \<^verbatim>\<open>try\<close> runs.
\<close>

type_synonym csv_row = "string list"

datatype file_state = Absent | Present "csv_row list"

definition FIELDNAMES :: "string list" where
  "FIELDNAMES = [''BookID'', ''Title'', ''Author'', ''TotalCopies'', ''AvailableCopies'']"



text \<open>
  \<^verbatim>\<open>csv.reader\<close> on one stored row: it raises \<^verbatim>\<open>csv.Error\<close> on a field of more
  than \<^verbatim>\<open>csv.field_size_limit()\<close> characters, 131072 unless configured. The program
  does not configure it.
\<close>

definition field_size_limit :: nat where
  "field_size_limit = 131072"

definition reader_row :: "csv_row \<Rightarrow> error + csv_row" where
  "reader_row r =
     (if filter (\<lambda>field. field_size_limit < length field) r \<noteq> [] then Inl CsvError else Inr r)"

text \<open>The value of the \<open>k\<close>-th column in a \<^verbatim>\<open>DictReader\<close> row: a row shorter than the
  field names has \<^verbatim>\<open>None\<close> for the columns it lacks, so every key is in the row and the
  test \<^verbatim>\<open>all(key in row for key in FIELDNAMES)\<close> is always true.\<close>

definition row_get :: "csv_row \<Rightarrow> nat \<Rightarrow> pyval" where
  "row_get r k = (if k < length r then PyStr (r ! k) else PyNone)"

text \<open>
  The body of the loop in \<^verbatim>\<open>_load_books\<close> on one row. A row of fewer than three
  fields has \<^verbatim>\<open>None\<close> for \<^verbatim>\<open>TotalCopies\<close> (and for the title or the author), so
  \<^verbatim>\<open>int(total_copies)\<close> raises \<^verbatim>\<open>TypeError\<close> and no book is made.
\<close>

definition load_row :: "csv_row \<Rightarrow> error + book" where
  "load_row r =
     (if length r < 3 then Inl TypeError
      else Book_init (row_get r 0) (r ! 1) (r ! 2) (row_get r 3) (row_get r 4))"

text \<open>
  The loop over the rows that follow the header. \<^verbatim>\<open>DictReader\<close> passes over empty
  rows. A row whose construction raises is skipped and reported, and the loop goes on.
  When the reader raises, the loop is left for the outer handler, which returns the
  books made so far. The result is the list of books, the list of skipped rows, and the
  error of the reader, if any.
\<close>

fun load_rows :: "csv_row list \<Rightarrow> book list \<times> csv_row list \<times> error option" where
  "load_rows [] = ([], [], None)"
| "load_rows (r # rs) =
     (case reader_row r of
        Inl e \<Rightarrow> ([], [], Some e)
      | Inr row \<Rightarrow>
          if row = [] then load_rows rs
          else (case load_row row of
                  Inr b \<Rightarrow> (b # fst (load_rows rs), snd (load_rows rs))
                | Inl e \<Rightarrow> (fst (load_rows rs), row # fst (snd (load_rows rs)),
                           snd (snd (load_rows rs)))))"

text \<open>\<^verbatim>\<open>next(reader)\<close>, which skips the header: the rows that remain after the first row
  that is not empty. On a file without one it raises \<^verbatim>\<open>StopIteration\<close>.\<close>

fun skip_header :: "csv_row list \<Rightarrow> error + csv_row list" where
  "skip_header [] = Inl StopIteration"
| "skip_header (r # rs) =
     (case reader_row r of
        Inl e \<Rightarrow> Inl e
      | Inr row \<Rightarrow> if row = [] then skip_header rs else Inr rs)"

text \<open>
  \<^verbatim>\<open>_load_books\<close>: the books, the skipped rows, the error that the outer handlers
  caught, if any, and the file afterwards. An absent file is created with the header
  only.
\<close>

definition load_books ::
  "bool \<Rightarrow> file_state \<Rightarrow> book list \<times> csv_row list \<times> error option \<times> file_state" where
  "load_books io_ok f =
     (case f of
        Absent \<Rightarrow> if io_ok then ([], [], None, Present [FIELDNAMES])
                  else ([], [], Some OSError, Absent)
      | Present rows \<Rightarrow>
          if \<not> io_ok then ([], [], Some OSError, f)
          else (case skip_header rows of
                  Inl e \<Rightarrow> ([], [], Some e, f)
                | Inr data \<Rightarrow>
                    (fst (load_rows data), fst (snd (load_rows data)),
                     snd (snd (load_rows data)), f)))"



definition Library_init :: "bool \<Rightarrow> file_state \<Rightarrow> library \<times> file_state" where
  "Library_init io_ok f =
     (\<lparr>books = fst (load_books io_ok f), issued_books = Map.empty\<rparr>,
      snd (snd (snd (load_books io_ok f))))"

subsection \<open>Utility functions\<close>

text \<open>
  \<^verbatim>\<open>_get_next_id\<close>. The random source is the sequence \<open>randint\<close> of the values that
  the successive calls \<^verbatim>\<open>random.randint(1000, 9999)\<close> return. The loop has no bound, so
  it is a partial function: \<open>None\<close> is the loop that never returns.
\<close>

partial_function (option) next_id_loop ::
  "string set \<Rightarrow> (nat \<Rightarrow> int) \<Rightarrow> nat \<Rightarrow> (error + string) option" where
  "next_id_loop existing_ids randint k =
     (case py_str (PyInt (randint k)) of
        Inl e \<Rightarrow> Some (Inl e)
      | Inr new_id \<Rightarrow>
          if new_id \<notin> existing_ids then Some (Inr new_id)
          else next_id_loop existing_ids randint (Suc k))"

definition get_next_id :: "book list \<Rightarrow> (nat \<Rightarrow> int) \<Rightarrow> (error + string) option" where
  "get_next_id bs randint = next_id_loop (set (map book_id bs)) randint 0"

text \<open>
  \<^verbatim>\<open>_find_book\<close> returns the first matching book object, which the callers then
  mutate in place; the model returns its position in \<^verbatim>\<open>self.books\<close>.
\<close>

fun find_from :: "book list \<Rightarrow> string \<Rightarrow> nat \<Rightarrow> nat option" where
  "find_from [] query i = None"
| "find_from (b # bs) query i =
     (if query = py_lower (book_id b) \<or> py_in query (py_lower (title b)) then Some i
      else find_from bs query (Suc i))"

definition find_book :: "book list \<Rightarrow> string \<Rightarrow> nat option" where
  "find_book bs query = find_from bs (py_lower query) 0"

subsection \<open>Core features\<close>

text \<open>What an operation prints, as a value.\<close>

datatype fine_report = NoFine | Fine int int

datatype report =
    BookNotFound
  | Issued string int
  | AllCheckedOut string
  | NotRecorded string bool
  | Returned string fine_report
  | CannotReturn string

datatype search_report = NoQuery | SearchResults "book list" | NoMatch string

text \<open>The quantity loop of \<^verbatim>\<open>add_book\<close> over the remaining input lines: a line that
  is not a number, or a number that is not positive, asks again; \<^verbatim>\<open>input\<close> at the end
  of the input raises \<^verbatim>\<open>EOFError\<close>, which nothing catches.\<close>

fun read_total_copies :: "string list \<Rightarrow> error + (int \<times> string list)" where
  "read_total_copies [] = Inl EOFError"
| "read_total_copies (l # ls) =
     (case int_of_str l of
        None \<Rightarrow> read_total_copies ls
      | Some n \<Rightarrow> if n \<le> 0 then read_total_copies ls else Inr (n, ls))"

text \<open>\<^verbatim>\<open>add_book\<close>, given the random source and the input lines. \<open>None\<close>: the id loop
  never returns.\<close>

definition add_book :: "library \<Rightarrow> (nat \<Rightarrow> int) \<Rightarrow> string list \<Rightarrow> (error + library) option" where
  "add_book lib randint inputs =
     (case get_next_id (books lib) randint of
        None \<Rightarrow> None
      | Some (Inl e) \<Rightarrow> Some (Inl e)
      | Some (Inr new_id) \<Rightarrow> Some
          (case inputs of
             [] \<Rightarrow> Inl EOFError
           | t # rest \<Rightarrow>
               (case rest of
                  [] \<Rightarrow> Inl EOFError
                | a # rest' \<Rightarrow>
                    (case read_total_copies rest' of
                       Inl e \<Rightarrow> Inl e
                     | Inr (n, rest'') \<Rightarrow>
                         (case Book_init (PyStr new_id) (py_strip t) (py_strip a) (PyInt n) (PyInt n) of
                            Inl e \<Rightarrow> Inl e
                          | Inr new_book \<Rightarrow> Inr (lib\<lparr>books := books lib @ [new_book]\<rparr>))))))"

text \<open>\<^verbatim>\<open>search_book\<close>: it changes nothing, so the result is the report alone.\<close>

definition search_book :: "library \<Rightarrow> string \<Rightarrow> search_report" where
  "search_book lib line =
     (let query = py_strip line
      in if query = [] then NoQuery
         else (let found_books =
                     filter (\<lambda>b. py_in (py_lower query) (py_lower (book_id b))
                                \<or> py_in (py_lower query) (py_lower (title b))) (books lib)
               in if found_books \<noteq> [] then SearchResults found_books else NoMatch query))"

text \<open>
  \<^verbatim>\<open>issue_book\<close>, given the input line and the two readings of the clock
  (\<open>now1\<close> for the due date, \<open>now2\<close> for the issue date). The book that
  \<^verbatim>\<open>check_out\<close> has worked on is written back at its position.
\<close>

definition issue_book :: "library \<Rightarrow> string \<Rightarrow> int \<Rightarrow> int \<Rightarrow> library \<times> report" where
  "issue_book lib line now1 now2 =
     (let query = py_strip line
      in case find_book (books lib) query of
           None \<Rightarrow> (lib, BookNotFound)
         | Some i \<Rightarrow>
             (let (b, ok) = check_out (books lib ! i);
                  lib1 = lib\<lparr>books := (books lib)[i := b]\<rparr>
              in if ok then
                   (let due_date = now1 + timedelta_days 14
                    in (lib1\<lparr>issued_books := (issued_books lib1)(book_id b \<mapsto> (now2, due_date))\<rparr>,
                        Issued (title b) due_date))
                 else (lib1, AllCheckedOut (title b))))"

text \<open>\<^verbatim>\<open>return_book\<close>, given the input line and the reading of the clock.\<close>

definition return_book :: "library \<Rightarrow> string \<Rightarrow> int \<Rightarrow> library \<times> report" where
  "return_book lib line today =
     (let query = py_strip line
      in case find_book (books lib) query of
           None \<Rightarrow> (lib, BookNotFound)
         | Some i \<Rightarrow>
             (let b0 = books lib ! i
              in case issued_books lib (book_id b0) of
                   None \<Rightarrow>
                     if available_copies b0 < total_copies b0
                     then (lib\<lparr>books := (books lib)[i := fst (check_in b0)]\<rparr>,
                           NotRecorded (book_id b0) True)
                     else (lib, NotRecorded (book_id b0) False)
                 | Some (issue_date, due_date) \<Rightarrow>
                     (let (b, ok) = check_in b0;
                          lib1 = lib\<lparr>books := (books lib)[i := b]\<rparr>
                      in if ok then
                           (lib1\<lparr>issued_books := (issued_books lib1)(book_id b := None)\<rparr>,
                            Returned (title b)
                              (if today > due_date
                               then (let overdue_days = days (today - due_date)
                                     in Fine overdue_days (overdue_days * 10))
                               else NoFine))
                         else (lib1, CannotReturn (title b)))))"

subsection \<open>Notions of the specification\<close>

text \<open>The invariant that the specification states for a record.\<close>

definition copies_invariant :: "book \<Rightarrow> bool" where
  "copies_invariant b = (0 \<le> available_copies b \<and> available_copies b \<le> total_copies b)"

text \<open>The amount that a fine report stands for: "no fine" is the amount 0.\<close>

definition fine_amount :: "fine_report \<Rightarrow> int" where
  "fine_amount fr = (case fr of NoFine \<Rightarrow> 0 | Fine d f \<Rightarrow> f)"

text \<open>The overdue days of the specification: the whole days by which the return time
  exceeds the due date, and 0 when the return is not overdue.\<close>

definition spec_overdue_days :: "int \<Rightarrow> int \<Rightarrow> int" where
  "spec_overdue_days today due_date =
     (if today > due_date then (today - due_date) div us_per_day else 0)"

section \<open>Properties\<close>

subsection \<open>Integers and their decimal text\<close>


lemma digit_char_eval:
  "digit_char 0 = CHR ''0''" "digit_char 1 = CHR ''1''" "digit_char 2 = CHR ''2''"
  "digit_char 3 = CHR ''3''" "digit_char 4 = CHR ''4''" "digit_char 5 = CHR ''5''"
  "digit_char 6 = CHR ''6''" "digit_char 7 = CHR ''7''" "digit_char 8 = CHR ''8''"
  "digit_char 9 = CHR ''9''"
  by code_simp+










subsection \<open>Lookup\<close>

lemma find_from_bounds: "find_from bs q k = Some i \<Longrightarrow> k \<le> i \<and> i < k + length bs"
  by (induction bs arbitrary: k) (fastforce split: if_splits)+

lemma find_book_lt: "find_book bs q = Some i \<Longrightarrow> i < length bs"
  using find_from_bounds [of bs "py_lower q" 0 i] by (simp add: find_book_def)

subsection \<open>Check-out and check-in of one record\<close>

text \<open>
  Claim C6. \<^verbatim>\<open>check_out\<close> succeeds exactly when \<open>available_copies > 0\<close>, and then
  decrements \<open>available_copies\<close> by 1 and changes nothing else; when it fails the record
  is unchanged. \<^verbatim>\<open>check_in\<close> succeeds exactly when
  \<open>available_copies < total_copies\<close>, and then increments \<open>available_copies\<close> by 1; when it
  fails the record is unchanged.
\<close>

theorem check_out_check_in_spec:
  "(snd (check_out b) \<longleftrightarrow> 0 < available_copies b) \<and>
   (snd (check_out b) \<longrightarrow> fst (check_out b) = b\<lparr>available_copies := available_copies b - 1\<rparr>) \<and>
   (\<not> snd (check_out b) \<longrightarrow> fst (check_out b) = b) \<and>
   (snd (check_in b) \<longleftrightarrow> available_copies b < total_copies b) \<and>
   (snd (check_in b) \<longrightarrow> fst (check_in b) = b\<lparr>available_copies := available_copies b + 1\<rparr>) \<and>
   (\<not> snd (check_in b) \<longrightarrow> fst (check_in b) = b)"
  by (simp add: check_out_def check_in_def)

theorem check_out_check_in_spec_witness:
  "snd (check_out \<lparr>book_id = ''1234'', title = ''Dune'', author = ''Herbert'', total_copies = 3, available_copies = 3\<rparr>)
   \<and> fst (check_out \<lparr>book_id = ''1234'', title = ''Dune'', author = ''Herbert'', total_copies = 3, available_copies = 3\<rparr>)
       = \<lparr>book_id = ''1234'', title = ''Dune'', author = ''Herbert'', total_copies = 3, available_copies = 2\<rparr>
   \<and> \<not> snd (check_in \<lparr>book_id = ''1234'', title = ''Dune'', author = ''Herbert'', total_copies = 3, available_copies = 3\<rparr>)
   \<and> fst (check_in \<lparr>book_id = ''1234'', title = ''Dune'', author = ''Herbert'', total_copies = 3, available_copies = 3\<rparr>)
       = \<lparr>book_id = ''1234'', title = ''Dune'', author = ''Herbert'', total_copies = 3, available_copies = 3\<rparr>"
  using check_out_check_in_spec [of "\<lparr>book_id = ''1234'', title = ''Dune'', author = ''Herbert'', total_copies = 3, available_copies = 3\<rparr>"]
  by simp

text \<open>
  Claim C7, as stated, fails: on a record with no available copy \<^verbatim>\<open>check_out\<close> fails
  and changes nothing, and the \<^verbatim>\<open>check_in\<close> that follows succeeds, so the count goes
  from 0 to 1.
\<close>

theorem check_out_then_check_in_counterexample:
  "available_copies (fst (check_in (fst (check_out
      \<lparr>book_id = ''1234'', title = ''Dune'', author = ''Herbert'', total_copies = 3, available_copies = 0\<rparr>))))
   \<noteq> available_copies
      \<lparr>book_id = ''1234'', title = ''Dune'', author = ''Herbert'', total_copies = 3, available_copies = 0\<rparr>"
  by (simp add: check_out_def check_in_def)

text \<open>
  Claim C7, amended. On a record with \<open>0 < available_copies \<le> total_copies\<close>, that is
  when \<^verbatim>\<open>check_out\<close> succeeds on a record within its invariant, \<^verbatim>\<open>check_out\<close>
  followed by \<^verbatim>\<open>check_in\<close> gives the record back, and so its \<open>available_copies\<close>.
\<close>

theorem check_out_then_check_in_restores:
  "0 < available_copies b \<Longrightarrow> available_copies b \<le> total_copies b \<Longrightarrow>
   fst (check_in (fst (check_out b))) = b
   \<and> available_copies (fst (check_in (fst (check_out b)))) = available_copies b"
  by (simp add: check_out_def check_in_def)

theorem check_out_then_check_in_restores_witness:
  "fst (check_in (fst (check_out
      \<lparr>book_id = ''1234'', title = ''Dune'', author = ''Herbert'', total_copies = 3, available_copies = 2\<rparr>)))
   = \<lparr>book_id = ''1234'', title = ''Dune'', author = ''Herbert'', total_copies = 3, available_copies = 2\<rparr>"
  using check_out_then_check_in_restores [of "\<lparr>book_id = ''1234'', title = ''Dune'', author = ''Herbert'', total_copies = 3, available_copies = 2\<rparr>"]
  by simp

subsection \<open>Issue and return\<close>

text \<open>
  Claim C5. When \<^verbatim>\<open>issue_book\<close> resolves the query to a book with no available copy,
  it reports that all copies are checked out, a report other than "not found", and the
  library is unchanged: the books and the loans are as before.
\<close>

theorem issue_none_available:
  assumes "find_book (books lib) (py_strip line) = Some i"
    and "available_copies (books lib ! i) = 0"
  shows "issue_book lib line now1 now2 = (lib, AllCheckedOut (title (books lib ! i)))
     \<and> AllCheckedOut (title (books lib ! i)) \<noteq> BookNotFound"
  using assms by (simp add: issue_book_def check_out_def)

theorem issue_none_available_witness:
  "issue_book \<lparr>books = [\<lparr>book_id = ''1234'', title = ''Dune'', author = ''Herbert'',
                          total_copies = 1, available_copies = 0\<rparr>],
               issued_books = Map.empty\<rparr> ''dune'' 5 5
   = (\<lparr>books = [\<lparr>book_id = ''1234'', title = ''Dune'', author = ''Herbert'',
                   total_copies = 1, available_copies = 0\<rparr>],
        issued_books = Map.empty\<rparr>, AllCheckedOut ''Dune'')"
proof -
  have h1: "find_book (books \<lparr>books = [\<lparr>book_id = ''1234'', title = ''Dune'', author = ''Herbert'',
                          total_copies = 1, available_copies = 0\<rparr>],
               issued_books = Map.empty\<rparr>) (py_strip ''dune'') = Some 0"
    by code_simp
  show ?thesis
    using issue_none_available [OF h1, of 5 5] by simp
qed

text \<open>
  Claim C3. When \<^verbatim>\<open>return_book\<close> resolves the query to a book that has a loan entry
  and \<^verbatim>\<open>check_in\<close> succeeds, the loan entry of that id is removed and the reported
  fine is \<open>max 0 overdue_days * 10\<close>, with the overdue days of the specification.
\<close>

theorem return_fine:
  assumes "find_book (books lib) (py_strip line) = Some i"
    and "issued_books lib (book_id (books lib ! i)) = Some (issue_date, due_date)"
    and "snd (check_in (books lib ! i))"
  shows "issued_books (fst (return_book lib line today)) (book_id (books lib ! i)) = None
     \<and> (\<exists>fr. snd (return_book lib line today) = Returned (title (books lib ! i)) fr
            \<and> fine_amount fr = max 0 (spec_overdue_days today due_date) * 10)"
proof -
  have lt: "available_copies (books lib ! i) < total_copies (books lib ! i)"
    using assms(3) by (simp add: check_in_def split: if_splits)
  have nonneg: "today > due_date \<Longrightarrow> 0 \<le> (today - due_date) div us_per_day"
    by (simp add: us_per_day_def pos_imp_zdiv_nonneg_iff)
  show ?thesis
    using assms(1,2) lt nonneg
    by (simp add: return_book_def check_in_def fine_amount_def spec_overdue_days_def days_def Let_def)
qed

theorem return_fine_witness:
  "issued_books (fst (return_book
      \<lparr>books = [\<lparr>book_id = ''1234'', title = ''Dune'', author = ''Herbert'',
                 total_copies = 3, available_copies = 2\<rparr>],
       issued_books = [''1234'' \<mapsto> (0, 1209600000000)]\<rparr> ''Dune'' 1728000000000)) ''1234'' = None
   \<and> (\<exists>fr. snd (return_book
      \<lparr>books = [\<lparr>book_id = ''1234'', title = ''Dune'', author = ''Herbert'',
                 total_copies = 3, available_copies = 2\<rparr>],
       issued_books = [''1234'' \<mapsto> (0, 1209600000000)]\<rparr> ''Dune'' 1728000000000)
        = Returned ''Dune'' fr \<and> fine_amount fr = 60)"
proof -
  have h1: "find_book (books \<lparr>books = [\<lparr>book_id = ''1234'', title = ''Dune'', author = ''Herbert'',
                 total_copies = 3, available_copies = 2\<rparr>],
       issued_books = [''1234'' \<mapsto> (0, 1209600000000)]\<rparr>) (py_strip ''Dune'') = Some 0"
    by code_simp
  have h2: "issued_books \<lparr>books = [\<lparr>book_id = ''1234'', title = ''Dune'', author = ''Herbert'',
                 total_copies = 3, available_copies = 2\<rparr>],
       issued_books = [''1234'' \<mapsto> (0, 1209600000000)]\<rparr>
       (book_id (books \<lparr>books = [\<lparr>book_id = ''1234'', title = ''Dune'', author = ''Herbert'',
                 total_copies = 3, available_copies = 2\<rparr>],
       issued_books = [''1234'' \<mapsto> (0, 1209600000000)]\<rparr> ! 0)) = Some (0, 1209600000000)"
    by simp
  have h3: "snd (check_in (books \<lparr>books = [\<lparr>book_id = ''1234'', title = ''Dune'', author = ''Herbert'',
                 total_copies = 3, available_copies = 2\<rparr>],
       issued_books = [''1234'' \<mapsto> (0, 1209600000000)]\<rparr> ! 0))"
    by (simp add: check_in_def)
  have d: "spec_overdue_days 1728000000000 1209600000000 = 6"
    by (simp add: spec_overdue_days_def us_per_day_def)
  show ?thesis
    using return_fine [OF h1 h2 h3, of 1728000000000] by (simp add: d)
qed


text \<open>
  Claim C4 does not hold of \<^verbatim>\<open>issue_book\<close> and \<^verbatim>\<open>return_book\<close>. Only
  \<^verbatim>\<open>search_book\<close> tests for the empty query. In \<^verbatim>\<open>_find_book\<close> the empty query
  is in every title, so it resolves to the first book of the catalog: \<^verbatim>\<open>issue_book\<close>
  checks that book out and records a loan, and \<^verbatim>\<open>return_book\<close> checks it in and
  removes the loan.
\<close>

theorem empty_query_issue_return:
  "issue_book \<lparr>books = [\<lparr>book_id = ''1234'', title = ''Dune'', author = ''Herbert'',
                          total_copies = 1, available_copies = 1\<rparr>],
               issued_books = Map.empty\<rparr> '''' 0 0
   = (\<lparr>books = [\<lparr>book_id = ''1234'', title = ''Dune'', author = ''Herbert'',
                   total_copies = 1, available_copies = 0\<rparr>],
        issued_books = [''1234'' \<mapsto> (0, 1209600000000)]\<rparr>, Issued ''Dune'' 1209600000000)
   \<and> return_book \<lparr>books = [\<lparr>book_id = ''1234'', title = ''Dune'', author = ''Herbert'',
                   total_copies = 1, available_copies = 0\<rparr>],
        issued_books = [''1234'' \<mapsto> (0, 1209600000000)]\<rparr> '''' 5
   = (\<lparr>books = [\<lparr>book_id = ''1234'', title = ''Dune'', author = ''Herbert'',
                          total_copies = 1, available_copies = 1\<rparr>],
               issued_books = Map.empty\<rparr>, Returned ''Dune'' NoFine)
   \<and> search_book \<lparr>books = [\<lparr>book_id = ''1234'', title = ''Dune'', author = ''Herbert'',
                          total_copies = 1, available_copies = 1\<rparr>],
               issued_books = Map.empty\<rparr> '''' = NoQuery"
  by (simp add: issue_book_def return_book_def search_book_def find_book_def py_strip_def
      py_lower_def check_out_def check_in_def timedelta_days_def us_per_day_def)

subsection \<open>Construction\<close>

text \<open>
  Claim C10. When both count arguments convert to integers, \<^verbatim>\<open>Book.__init__\<close> stores
  the two values as they are, with no clamping. The counts are set to 0 in place of the
  arguments only when a conversion raises \<^verbatim>\<open>ValueError\<close>, and they are whenever the
  conversion of \<open>total_copies\<close> does, or that of \<open>available_copies\<close> does after
  \<open>total_copies\<close> has converted. So a record can have more available copies than
  copies, as the row with 1 and 5 shows, or a negative number of them. A count text with
  a separator 0x1c before the digits does not convert, and the counts of that record
  are 0.
\<close>

theorem Book_init_verbatim_or_zeroed:
  "(py_str bid = Inr s \<and> py_int tc = Inr n \<and> py_int ac = Inr m \<longrightarrow>
      Book_init bid t a tc ac = Inr \<lparr>book_id = s, title = t, author = a,
                                     total_copies = n, available_copies = m\<rparr>)
   \<and> (Book_init bid t a tc ac = Inr \<lparr>book_id = s, title = t, author = a,
                                     total_copies = 0, available_copies = 0\<rparr>
        \<and> \<not> (py_int tc = Inr 0 \<and> py_int ac = Inr 0)
      \<longrightarrow> py_int tc = Inl ValueError \<or> py_int ac = Inl ValueError)
   \<and> (py_str bid = Inr s
        \<and> (py_int tc = Inl ValueError \<or> ((\<exists>k. py_int tc = Inr k) \<and> py_int ac = Inl ValueError)) \<longrightarrow>
      Book_init bid t a tc ac = Inr \<lparr>book_id = s, title = t, author = a,
                                     total_copies = 0, available_copies = 0\<rparr>)
   \<and> Book_init (PyStr ''1234'') ''Dune'' ''Herbert'' (PyStr ''1'') (PyStr ''5'')
       = Inr \<lparr>book_id = ''1234'', title = ''Dune'', author = ''Herbert'',
              total_copies = 1, available_copies = 5\<rparr>
   \<and> Book_init (PyStr ''1234'') ''Dune'' ''Herbert'' (PyStr ''2'') (PyStr ''-3'')
       = Inr \<lparr>book_id = ''1234'', title = ''Dune'', author = ''Herbert'',
              total_copies = 2, available_copies = - 3\<rparr>
   \<and> Book_init (PyStr ''1234'') ''Dune'' ''Herbert'' (PyStr [CHR 0x1C, CHR ''3'']) (PyStr ''1'')
       = Inr \<lparr>book_id = ''1234'', title = ''Dune'', author = ''Herbert'',
              total_copies = 0, available_copies = 0\<rparr>"
proof -
  have e1: "Book_init (PyStr ''1234'') ''Dune'' ''Herbert'' (PyStr ''1'') (PyStr ''5'')
       = Inr \<lparr>book_id = ''1234'', title = ''Dune'', author = ''Herbert'',
              total_copies = 1, available_copies = 5\<rparr>"
    by code_simp
  have e2: "Book_init (PyStr ''1234'') ''Dune'' ''Herbert'' (PyStr ''2'') (PyStr ''-3'')
       = Inr \<lparr>book_id = ''1234'', title = ''Dune'', author = ''Herbert'',
              total_copies = 2, available_copies = - 3\<rparr>"
    by code_simp
  have e3: "Book_init (PyStr ''1234'') ''Dune'' ''Herbert'' (PyStr [CHR 0x1C, CHR ''3'']) (PyStr ''1'')
       = Inr \<lparr>book_id = ''1234'', title = ''Dune'', author = ''Herbert'',
              total_copies = 0, available_copies = 0\<rparr>"
    by code_simp
  have g1: "py_str bid = Inr s \<and> py_int tc = Inr n \<and> py_int ac = Inr m \<longrightarrow>
      Book_init bid t a tc ac = Inr \<lparr>book_id = s, title = t, author = a,
                                     total_copies = n, available_copies = m\<rparr>"
    by (simp add: Book_init_def)
  have g2: "Book_init bid t a tc ac = Inr \<lparr>book_id = s, title = t, author = a,
                                     total_copies = 0, available_copies = 0\<rparr>
        \<and> \<not> (py_int tc = Inr 0 \<and> py_int ac = Inr 0)
      \<longrightarrow> py_int tc = Inl ValueError \<or> py_int ac = Inl ValueError"
    by (auto simp: Book_init_def Let_def split: sum.splits if_splits)
  have g3: "py_str bid = Inr s
        \<and> (py_int tc = Inl ValueError \<or> ((\<exists>k. py_int tc = Inr k) \<and> py_int ac = Inl ValueError)) \<longrightarrow>
      Book_init bid t a tc ac = Inr \<lparr>book_id = s, title = t, author = a,
                                     total_copies = 0, available_copies = 0\<rparr>"
    by (auto simp: Book_init_def Let_def)
  show ?thesis
    by (rule conjI [OF g1 conjI [OF g2 conjI [OF g3 conjI [OF e1 conjI [OF e2 e3]]]]])
qed

theorem Book_init_verbatim_or_zeroed_witness:
  "py_int (PyStr ''7'') = Inr 7 \<and> py_int (PyStr ''9'') = Inr 9
   \<and> Book_init (PyStr ''4321'') ''Emma'' ''Austen'' (PyStr ''7'') (PyStr ''9'')
       = Inr \<lparr>book_id = ''4321'', title = ''Emma'', author = ''Austen'',
              total_copies = 7, available_copies = 9\<rparr>
   \<and> py_int (PyStr ''many'') = Inl ValueError
   \<and> Book_init (PyStr ''4321'') ''Emma'' ''Austen'' (PyStr ''many'') (PyStr ''9'')
       = Inr \<lparr>book_id = ''4321'', title = ''Emma'', author = ''Austen'',
              total_copies = 0, available_copies = 0\<rparr>"
proof -
  have p7: "py_int (PyStr ''7'') = Inr 7" by code_simp
  have p9: "py_int (PyStr ''9'') = Inr 9" by code_simp
  have pm: "py_int (PyStr ''many'') = Inl ValueError" by code_simp
  have s: "py_str (PyStr ''4321'') = Inr ''4321''" by (simp add: py_str_def)
  show ?thesis
    using Book_init_verbatim_or_zeroed
            [of "PyStr ''4321''" "''4321''" "PyStr ''7''" 7 "PyStr ''9''" 9 "''Emma''" "''Austen''"]
          Book_init_verbatim_or_zeroed
            [of "PyStr ''4321''" "''4321''" "PyStr ''many''" 0 "PyStr ''9''" 9 "''Emma''" "''Austen''"]
          p7 p9 pm s
    by simp
qed

subsection \<open>Saving and loading\<close>







lemma reader_row_FIELDNAMES: "reader_row FIELDNAMES = Inr FIELDNAMES \<and> FIELDNAMES \<noteq> []"
  by (simp add: FIELDNAMES_def reader_row_def field_size_limit_def)




subsection \<open>The invariant on the copy counts\<close>

lemma check_out_inv: "copies_invariant b \<Longrightarrow> copies_invariant (fst (check_out b))"
  by (simp add: copies_invariant_def check_out_def)

lemma check_in_inv: "copies_invariant b \<Longrightarrow> copies_invariant (fst (check_in b))"
  by (simp add: copies_invariant_def check_in_def)

lemma update_inv:
  assumes "\<forall>b \<in> set bs. copies_invariant b" and "copies_invariant b'"
  shows "\<forall>b \<in> set (bs[i := b']). copies_invariant b"
  using assms set_update_subset_insert [of bs i b'] by auto

lemma issue_inv:
  assumes "\<forall>b \<in> set (books lib). copies_invariant b"
  shows "\<forall>b \<in> set (books (fst (issue_book lib line now1 now2))). copies_invariant b"
proof (cases "find_book (books lib) (py_strip line)")
  case None
  then show ?thesis using assms by (simp add: issue_book_def)
next
  case (Some i)
  have "copies_invariant (books lib ! i)"
    using assms find_book_lt [OF Some] by simp
  then have "\<forall>b \<in> set ((books lib)[i := fst (check_out (books lib ! i))]). copies_invariant b"
    using assms by (intro update_inv check_out_inv)
  then show ?thesis
    using Some by (simp add: issue_book_def Let_def split: prod.splits)
qed

lemma return_inv:
  assumes "\<forall>b \<in> set (books lib). copies_invariant b"
  shows "\<forall>b \<in> set (books (fst (return_book lib line today))). copies_invariant b"
proof (cases "find_book (books lib) (py_strip line)")
  case None
  then show ?thesis using assms by (simp add: return_book_def)
next
  case (Some i)
  have "copies_invariant (books lib ! i)"
    using assms find_book_lt [OF Some] by simp
  then have "\<forall>b \<in> set ((books lib)[i := fst (check_in (books lib ! i))]). copies_invariant b"
    using assms by (intro update_inv check_in_inv)
  then show ?thesis
    using Some assms by (simp add: return_book_def Let_def split: prod.splits option.splits)
qed

lemma read_total_copies_pos: "read_total_copies ls = Inr (n, rest) \<Longrightarrow> 0 < n"
  by (induction ls) (auto split: option.splits if_splits)

lemma Book_init_ints:
  "Book_init (PyStr s) t a (PyInt n) (PyInt m)
     = Inr \<lparr>book_id = s, title = t, author = a, total_copies = n, available_copies = m\<rparr>"
  by (simp add: Book_init_def py_int_def py_str_def)

lemma add_book_result:
  assumes "add_book lib randint inputs = Some (Inr lib')"
  shows "\<exists>new_id t a n. 0 < n \<and> get_next_id (books lib) randint = Some (Inr new_id)
     \<and> lib' = lib\<lparr>books := books lib @
          [\<lparr>book_id = new_id, title = t, author = a, total_copies = n, available_copies = n\<rparr>]\<rparr>"
proof -
  obtain r where g0: "get_next_id (books lib) randint = Some r"
    using assms by (cases "get_next_id (books lib) randint") (simp_all add: add_book_def)
  obtain new_id where g: "get_next_id (books lib) randint = Some (Inr new_id)"
    using assms g0 by (cases r) (simp_all add: add_book_def)
  obtain t rest where i1: "inputs = t # rest"
    using assms g by (cases inputs) (simp_all add: add_book_def)
  obtain a rest' where i2: "rest = a # rest'"
    using assms g i1 by (cases rest) (simp_all add: add_book_def)
  obtain n rest'' where r: "read_total_copies rest' = Inr (n, rest'')"
    using assms g i1 i2 by (cases "read_total_copies rest'") (auto simp: add_book_def)
  have "lib' = lib\<lparr>books := books lib @
          [\<lparr>book_id = new_id, title = py_strip t, author = py_strip a,
            total_copies = n, available_copies = n\<rparr>]\<rparr>"
    using assms g i1 i2 r by (simp add: add_book_def Book_init_ints)
  then show ?thesis
    using g read_total_copies_pos [OF r] by blast
qed

lemma add_inv:
  assumes "add_book lib randint inputs = Some (Inr lib')"
    and "\<forall>b \<in> set (books lib). copies_invariant b"
  shows "\<forall>b \<in> set (books lib'). copies_invariant b"
proof -
  obtain new_id t a n where n: "0 < n"
    and l: "lib' = lib\<lparr>books := books lib @
          [\<lparr>book_id = new_id, title = t, author = a, total_copies = n, available_copies = n\<rparr>]\<rparr>"
    using add_book_result [OF assms(1)] by blast
  show ?thesis
    using assms(2) n by (auto simp: l copies_invariant_def)
qed

lemma Book_init_inv:
  assumes "Book_init bid t a tc ac = Inr b"
    and "\<forall>n m. py_int tc = Inr n \<and> py_int ac = Inr m \<longrightarrow> 0 \<le> m \<and> m \<le> n"
  shows "copies_invariant b"
  using assms
  by (auto simp: Book_init_def Let_def copies_invariant_def split: if_splits sum.splits)

lemma load_row_inv:
  assumes "load_row r = Inr b"
    and "\<forall>n m. py_int (row_get r 3) = Inr n \<and> py_int (row_get r 4) = Inr m \<longrightarrow> 0 \<le> m \<and> m \<le> n"
  shows "copies_invariant b"
proof -
  have "Book_init (row_get r 0) (r ! 1) (r ! 2) (row_get r 3) (row_get r 4) = Inr b"
    using assms(1) by (simp add: load_row_def split: if_splits)
  then show ?thesis
    using assms(2) by (rule Book_init_inv)
qed

lemma load_rows_mem: "b \<in> set (fst (load_rows rs)) \<Longrightarrow> \<exists>r \<in> set rs. load_row r = Inr b"
proof (induction rs)
  case Nil
  then show ?case by simp
next
  case (Cons r rs)
  show ?case
  proof (cases "reader_row r")
    case (Inl e)
    then show ?thesis using Cons.prems by simp
  next
    case (Inr row)
    then have row: "row = r"
      by (simp add: reader_row_def split: if_splits)
    show ?thesis
    proof (cases "r = []")
      case True
      then show ?thesis using Cons Inr row by simp
    next
      case False
      show ?thesis
      proof (cases "load_row r")
        case (Inl e)
        then show ?thesis using Cons Inr row False by simp
      next
        case (Inr b')
        then have "b = b' \<or> b \<in> set (fst (load_rows rs))"
          using Cons.prems \<open>reader_row r = Inr row\<close> row False by simp
        then show ?thesis using Cons.IH Inr by auto
      qed
    qed
  qed
qed

lemma skip_header_subset: "skip_header rows = Inr data \<Longrightarrow> set data \<subseteq> set rows"
proof (induction rows)
  case Nil
  then show ?case by simp
next
  case (Cons r rows)
  show ?case
  proof (cases "reader_row r")
    case (Inl e)
    then show ?thesis using Cons.prems by simp
  next
    case (Inr row)
    then show ?thesis
      using Cons by (cases "row = []") auto
  qed
qed

lemma load_books_mem:
  assumes "b \<in> set (fst (load_books io_ok f))"
  shows "\<exists>rows r. f = Present rows \<and> r \<in> set rows \<and> load_row r = Inr b"
proof (cases f)
  case Absent
  then show ?thesis using assms by (simp add: load_books_def split: if_splits)
next
  case (Present rows)
  show ?thesis
  proof (cases "skip_header rows")
    case (Inl e)
    then show ?thesis using assms Present by (simp add: load_books_def split: if_splits)
  next
    case (Inr data)
    then have "b \<in> set (fst (load_rows data))"
      using assms Present by (simp add: load_books_def split: if_splits)
    then obtain r where r: "r \<in> set data" "load_row r = Inr b"
      using load_rows_mem by blast
    then show ?thesis
      using skip_header_subset [OF Inr] Present by blast
  qed
qed

lemma load_inv:
  assumes "\<forall>r \<in> set rows. \<forall>n m. py_int (row_get r 3) = Inr n \<and> py_int (row_get r 4) = Inr m
             \<longrightarrow> 0 \<le> m \<and> m \<le> n"
  shows "\<forall>b \<in> set (fst (load_books io_ok (Present rows))). copies_invariant b"
proof
  fix b assume "b \<in> set (fst (load_books io_ok (Present rows)))"
  then obtain r where "r \<in> set rows" "load_row r = Inr b"
    using load_books_mem by blast
  then show "copies_invariant b"
    using assms load_row_inv by blast
qed

text \<open>
  Claim C1, as stated, fails for \<^verbatim>\<open>_load_books\<close>: the constructor does not compare
  the two counts, so a stored row with \<open>TotalCopies = 1\<close> and \<open>AvailableCopies = 5\<close>
  is loaded as a record with 5 available copies of 1.
\<close>

theorem invariant_load_counterexample:
  "fst (load_books True (Present [FIELDNAMES, [''1234'', ''Dune'', ''Herbert'', ''1'', ''5'']]))
     = [\<lparr>book_id = ''1234'', title = ''Dune'', author = ''Herbert'',
         total_copies = 1, available_copies = 5\<rparr>]
   \<and> \<not> (0 \<le> available_copies \<lparr>book_id = ''1234'', title = ''Dune'', author = ''Herbert'',
         total_copies = 1, available_copies = 5\<rparr>
        \<and> available_copies \<lparr>book_id = ''1234'', title = ''Dune'', author = ''Herbert'',
         total_copies = 1, available_copies = 5\<rparr>
          \<le> total_copies \<lparr>book_id = ''1234'', title = ''Dune'', author = ''Herbert'',
         total_copies = 1, available_copies = 5\<rparr>)"
proof -
  have l: "load_row [''1234'', ''Dune'', ''Herbert'', ''1'', ''5'']
      = Inr \<lparr>book_id = ''1234'', title = ''Dune'', author = ''Herbert'',
         total_copies = 1, available_copies = 5\<rparr>"
    by code_simp
  have r: "reader_row [''1234'', ''Dune'', ''Herbert'', ''1'', ''5'']
      = Inr [''1234'', ''Dune'', ''Herbert'', ''1'', ''5'']"
    by (simp add: reader_row_def field_size_limit_def)
  show ?thesis
    by (simp add: load_books_def reader_row_FIELDNAMES l r)
qed

text \<open>
  Claim C1, amended. The invariant \<open>0 \<le> available_copies \<le> total_copies\<close> is kept by
  \<^verbatim>\<open>check_out\<close> and \<^verbatim>\<open>check_in\<close> on a record that has it, and by \<^verbatim>\<open>issue_book\<close>,
  \<^verbatim>\<open>return_book\<close> and \<^verbatim>\<open>add_book\<close> on a catalog whose records all have it (the
  record that \<^verbatim>\<open>add_book\<close> makes has it). A record that the constructor makes has it
  when the two count arguments, if both convert to integers, satisfy it; counts that
  fail to convert with a value error give the counts 0 and 0. So the records that
  \<^verbatim>\<open>_load_books\<close> makes have it when, in every stored row whose two counts convert to
  integers, the counts satisfy it.
\<close>

theorem invariant_preserved:
  "(copies_invariant b \<longrightarrow>
      copies_invariant (fst (check_out b)) \<and> copies_invariant (fst (check_in b)))
   \<and> ((\<forall>b \<in> set (books lib). copies_invariant b) \<longrightarrow>
        (\<forall>b \<in> set (books (fst (issue_book lib line now1 now2))). copies_invariant b)
      \<and> (\<forall>b \<in> set (books (fst (return_book lib line today))). copies_invariant b))
   \<and> ((\<forall>b \<in> set (books lib). copies_invariant b)
        \<and> add_book lib randint inputs = Some (Inr lib') \<longrightarrow>
        (\<forall>b \<in> set (books lib'). copies_invariant b))
   \<and> (Book_init bid t a tc ac = Inr b'
        \<and> (\<forall>n m. py_int tc = Inr n \<and> py_int ac = Inr m \<longrightarrow> 0 \<le> m \<and> m \<le> n) \<longrightarrow>
        copies_invariant b')
   \<and> ((\<forall>r \<in> set rows. \<forall>n m. py_int (row_get r 3) = Inr n \<and> py_int (row_get r 4) = Inr m
             \<longrightarrow> 0 \<le> m \<and> m \<le> n) \<longrightarrow>
        (\<forall>b \<in> set (fst (load_books io_ok (Present rows))). copies_invariant b))
   \<and> (\<forall>b \<in> set (fst (load_books io_ok Absent)). copies_invariant b)"
proof -
  have p1: "copies_invariant b \<longrightarrow>
      copies_invariant (fst (check_out b)) \<and> copies_invariant (fst (check_in b))"
    by (intro impI conjI) (erule check_out_inv, erule check_in_inv)
  have p2: "(\<forall>b \<in> set (books lib). copies_invariant b) \<longrightarrow>
        (\<forall>b \<in> set (books (fst (issue_book lib line now1 now2))). copies_invariant b)
      \<and> (\<forall>b \<in> set (books (fst (return_book lib line today))). copies_invariant b)"
    by (intro impI conjI) (erule issue_inv, erule return_inv)
  have p3: "(\<forall>b \<in> set (books lib). copies_invariant b)
        \<and> add_book lib randint inputs = Some (Inr lib') \<longrightarrow>
        (\<forall>b \<in> set (books lib'). copies_invariant b)"
  proof
    assume a: "(\<forall>b \<in> set (books lib). copies_invariant b)
        \<and> add_book lib randint inputs = Some (Inr lib')"
    show "\<forall>b \<in> set (books lib'). copies_invariant b"
      by (rule add_inv [OF conjunct2 [OF a] conjunct1 [OF a]])
  qed
  have p4: "Book_init bid t a tc ac = Inr b'
        \<and> (\<forall>n m. py_int tc = Inr n \<and> py_int ac = Inr m \<longrightarrow> 0 \<le> m \<and> m \<le> n) \<longrightarrow>
        copies_invariant b'"
  proof
    assume a: "Book_init bid t a tc ac = Inr b'
        \<and> (\<forall>n m. py_int tc = Inr n \<and> py_int ac = Inr m \<longrightarrow> 0 \<le> m \<and> m \<le> n)"
    show "copies_invariant b'"
      by (rule Book_init_inv [OF conjunct1 [OF a] conjunct2 [OF a]])
  qed
  have p5: "(\<forall>r \<in> set rows. \<forall>n m. py_int (row_get r 3) = Inr n \<and> py_int (row_get r 4) = Inr m
             \<longrightarrow> 0 \<le> m \<and> m \<le> n) \<longrightarrow>
        (\<forall>b \<in> set (fst (load_books io_ok (Present rows))). copies_invariant b)"
    by (rule impI) (erule load_inv)
  have p6: "\<forall>b \<in> set (fst (load_books io_ok Absent)). copies_invariant b"
    by (simp add: load_books_def)
  show ?thesis
    by (rule conjI [OF p1 conjI [OF p2 conjI [OF p3 conjI [OF p4 conjI [OF p5 p6]]]]])
qed

theorem invariant_preserved_witness:
  "copies_invariant (fst (check_out \<lparr>book_id = ''1234'', title = ''Dune'', author = ''Herbert'',
         total_copies = 3, available_copies = 2\<rparr>))
   \<and> copies_invariant (fst (check_in \<lparr>book_id = ''1234'', title = ''Dune'', author = ''Herbert'',
         total_copies = 3, available_copies = 2\<rparr>))
   \<and> list_all copies_invariant (books (fst (issue_book
         \<lparr>books = [\<lparr>book_id = ''1234'', title = ''Dune'', author = ''Herbert'',
                     total_copies = 3, available_copies = 2\<rparr>], issued_books = Map.empty\<rparr>
         ''dune'' 0 0)))
   \<and> list_all copies_invariant (books (fst (return_book
         \<lparr>books = [\<lparr>book_id = ''1234'', title = ''Dune'', author = ''Herbert'',
                     total_copies = 3, available_copies = 2\<rparr>], issued_books = Map.empty\<rparr>
         ''dune'' 0)))
   \<and> add_book
         \<lparr>books = [\<lparr>book_id = ''1234'', title = ''Dune'', author = ''Herbert'',
                     total_copies = 3, available_copies = 2\<rparr>], issued_books = Map.empty\<rparr>
         (\<lambda>k. 5678) [''Emma'', ''Austen'', ''zero'', ''0'', ''4'']
       = Some (Inr \<lparr>books = [\<lparr>book_id = ''1234'', title = ''Dune'', author = ''Herbert'',
                                 total_copies = 3, available_copies = 2\<rparr>,
                               \<lparr>book_id = ''5678'', title = ''Emma'', author = ''Austen'',
                                 total_copies = 4, available_copies = 4\<rparr>],
                     issued_books = Map.empty\<rparr>)
   \<and> copies_invariant \<lparr>book_id = ''5678'', title = ''Emma'', author = ''Austen'',
                         total_copies = 4, available_copies = 4\<rparr>
   \<and> Book_init (PyStr ''9999'') ''Ulysses'' ''Joyce'' (PyStr ''many'') (PyStr ''1'')
       = Inr \<lparr>book_id = ''9999'', title = ''Ulysses'', author = ''Joyce'',
              total_copies = 0, available_copies = 0\<rparr>
   \<and> copies_invariant \<lparr>book_id = ''9999'', title = ''Ulysses'', author = ''Joyce'',
              total_copies = 0, available_copies = 0\<rparr>
   \<and> list_all copies_invariant (fst (load_books True (Present
         [FIELDNAMES, [''1234'', ''Dune'', ''Herbert'', ''3'', ''2''],
          [''9999'', ''Ulysses'', ''Joyce'', ''many'', ''1'']])))"
proof -
  have hb: "copies_invariant \<lparr>book_id = ''1234'', title = ''Dune'', author = ''Herbert'',
         total_copies = 3, available_copies = 2\<rparr>"
    by (simp add: copies_invariant_def)
  have hl: "\<forall>b \<in> set (books \<lparr>books = [\<lparr>book_id = ''1234'', title = ''Dune'', author = ''Herbert'',
                     total_copies = 3, available_copies = 2\<rparr>], issued_books = Map.empty\<rparr>).
             copies_invariant b"
    using hb by simp
  have g: "get_next_id [\<lparr>book_id = ''1234'', title = ''Dune'', author = ''Herbert'',
                     total_copies = 3, available_copies = 2\<rparr>] (\<lambda>k. 5678) = Some (Inr ''5678'')"
  proof -
    have "str_int 5678 = ''5678''"
      by (simp add: str_int_def str_nat.simps digit_char_eval)
    moreover have "decimal_digits 5678 = 4"
      by (simp add: decimal_digits_def str_nat.simps)
    ultimately have "py_str (PyInt 5678) = Inr ''5678''"
      by (simp add: py_str_def int_max_str_digits_def)
    then show ?thesis
      unfolding get_next_id_def by (subst next_id_loop.simps) simp
  qed
  have rt: "read_total_copies [''zero'', ''0'', ''4''] = Inr (4, [])"
    by code_simp
  have st: "py_strip ''Emma'' = ''Emma''" "py_strip ''Austen'' = ''Austen''"
    by code_simp+
  have ha: "add_book
         \<lparr>books = [\<lparr>book_id = ''1234'', title = ''Dune'', author = ''Herbert'',
                     total_copies = 3, available_copies = 2\<rparr>], issued_books = Map.empty\<rparr>
         (\<lambda>k. 5678) [''Emma'', ''Austen'', ''zero'', ''0'', ''4'']
       = Some (Inr \<lparr>books = [\<lparr>book_id = ''1234'', title = ''Dune'', author = ''Herbert'',
                                 total_copies = 3, available_copies = 2\<rparr>,
                               \<lparr>book_id = ''5678'', title = ''Emma'', author = ''Austen'',
                                 total_copies = 4, available_copies = 4\<rparr>],
                     issued_books = Map.empty\<rparr>)"
    by (simp add: add_book_def g rt st Book_init_ints del: read_total_copies.simps)
  have pm: "py_int (PyStr ''many'') = Inl ValueError" "py_int (PyStr ''1'') = Inr 1"
    "py_int (PyStr ''3'') = Inr 3" "py_int (PyStr ''2'') = Inr 2"
    "py_int (PyStr ''TotalCopies'') = Inl ValueError"
    by code_simp+
  have hi: "Book_init (PyStr ''9999'') ''Ulysses'' ''Joyce'' (PyStr ''many'') (PyStr ''1'')
       = Inr \<lparr>book_id = ''9999'', title = ''Ulysses'', author = ''Joyce'',
              total_copies = 0, available_copies = 0\<rparr>"
    by (simp add: Book_init_def py_str_def pm)
  have hc: "\<forall>n m. py_int (PyStr ''many'') = Inr n \<and> py_int (PyStr ''1'') = Inr m \<longrightarrow> 0 \<le> m \<and> m \<le> n"
    by (simp add: pm)
  have hr: "\<forall>r \<in> set [FIELDNAMES, [''1234'', ''Dune'', ''Herbert'', ''3'', ''2''],
          [''9999'', ''Ulysses'', ''Joyce'', ''many'', ''1'']].
        \<forall>n m. py_int (row_get r 3) = Inr n \<and> py_int (row_get r 4) = Inr m \<longrightarrow> 0 \<le> m \<and> m \<le> n"
    by (simp add: row_get_def FIELDNAMES_def pm)
  note ip = invariant_preserved
      [where b = "\<lparr>book_id = ''1234'', title = ''Dune'', author = ''Herbert'',
                     total_copies = 3, available_copies = 2\<rparr>"
         and lib = "\<lparr>books = [\<lparr>book_id = ''1234'', title = ''Dune'', author = ''Herbert'',
                     total_copies = 3, available_copies = 2\<rparr>], issued_books = Map.empty\<rparr>"
         and line = "''dune''" and ?now1.0 = 0 and ?now2.0 = 0 and today = 0
         and randint = "\<lambda>k. 5678" and inputs = "[''Emma'', ''Austen'', ''zero'', ''0'', ''4'']"
         and lib' = "\<lparr>books = [\<lparr>book_id = ''1234'', title = ''Dune'', author = ''Herbert'',
                                 total_copies = 3, available_copies = 2\<rparr>,
                               \<lparr>book_id = ''5678'', title = ''Emma'', author = ''Austen'',
                                 total_copies = 4, available_copies = 4\<rparr>],
                     issued_books = Map.empty\<rparr>"
         and bid = "PyStr ''9999''" and t = "''Ulysses''" and a = "''Joyce''"
         and tc = "PyStr ''many''" and ac = "PyStr ''1''"
         and b' = "\<lparr>book_id = ''9999'', title = ''Ulysses'', author = ''Joyce'',
              total_copies = 0, available_copies = 0\<rparr>"
         and rows = "[FIELDNAMES, [''1234'', ''Dune'', ''Herbert'', ''3'', ''2''],
          [''9999'', ''Ulysses'', ''Joyce'', ''many'', ''1'']]"
         and io_ok = True]
  note c1 = mp [OF conjunct1 [OF ip] hb]
  note c2 = mp [OF conjunct1 [OF conjunct2 [OF ip]] hl]
  note c3 = mp [OF conjunct1 [OF conjunct2 [OF conjunct2 [OF ip]]] conjI [OF hl ha]]
  note c4 = mp [OF conjunct1 [OF conjunct2 [OF conjunct2 [OF conjunct2 [OF ip]]]] conjI [OF hi hc]]
  note c5 = mp [OF conjunct1 [OF conjunct2 [OF conjunct2 [OF conjunct2 [OF conjunct2 [OF ip]]]]] hr]
  have l2: "list_all copies_invariant (books (fst (issue_book
         \<lparr>books = [\<lparr>book_id = ''1234'', title = ''Dune'', author = ''Herbert'',
                     total_copies = 3, available_copies = 2\<rparr>], issued_books = Map.empty\<rparr>
         ''dune'' 0 0)))"
    using conjunct1 [OF c2] by (simp only: list_all_iff)
  have l3: "list_all copies_invariant (books (fst (return_book
         \<lparr>books = [\<lparr>book_id = ''1234'', title = ''Dune'', author = ''Herbert'',
                     total_copies = 3, available_copies = 2\<rparr>], issued_books = Map.empty\<rparr>
         ''dune'' 0)))"
    using conjunct2 [OF c2] by (simp only: list_all_iff)
  have l4: "copies_invariant \<lparr>book_id = ''5678'', title = ''Emma'', author = ''Austen'',
                         total_copies = 4, available_copies = 4\<rparr>"
    using c3 by simp
  have l5: "list_all copies_invariant (fst (load_books True (Present
         [FIELDNAMES, [''1234'', ''Dune'', ''Herbert'', ''3'', ''2''],
          [''9999'', ''Ulysses'', ''Joyce'', ''many'', ''1'']])))"
    using c5 by (simp only: list_all_iff)
  show ?thesis
    by (rule conjI [OF conjunct1 [OF c1] conjI [OF conjunct2 [OF c1] conjI [OF l2 conjI [OF l3
          conjI [OF ha conjI [OF l4 conjI [OF hi conjI [OF c4 l5]]]]]]]])
qed

end
